theory Spec2Isabelle
  imports Main "HOL-Library.Word" "HOL-Library.Sublist"
begin

unbundle bit_operations_syntax

section \<open>JavaScript strings and values\<close>

text \<open>
  A JavaScript string is a sequence of UTF-16 code units. ASCII literals of the source are
  written with \<open>lit\<close>; other characters are given by their code units.
\<close>

type_synonym jsstring = "16 word list"

definition lit :: "string \<Rightarrow> jsstring" where
  "lit s = map of_char s"

text \<open>
  \<open>String.prototype.trim\<close> removes the ECMAScript WhiteSpace and LineTerminator code
  points from both ends; all of them are single code units.
\<close>

definition isWhiteSpace :: "16 word \<Rightarrow> bool" where
  "isWhiteSpace c \<longleftrightarrow>
     c \<in> set [0x09, 0x0A, 0x0B, 0x0C, 0x0D, 0x20, 0xA0, 0x1680,
               0x2028, 0x2029, 0x202F, 0x205F, 0x3000, 0xFEFF]
     \<or> (0x2000 \<le> c \<and> c \<le> 0x200A)"

definition trim :: "jsstring \<Rightarrow> jsstring" where
  "trim s = rev (dropWhile isWhiteSpace (rev (dropWhile isWhiteSpace s)))"

text \<open>
  The values that JSON, extension storage and extension messages can hold, plus
  \<open>undefined\<close>. The scripts do two things with a number, convert it to a string and test
  its truthiness, so a number is given by its string conversion (the text that
  \<open>Number.prototype.toString\<close> yields for it, exponent notation included) and by whether it is
  non-zero. An object is the list of its own properties.
\<close>

datatype jsval =
    Undefined
  | JNull
  | JBool bool
  | JNum jsstring bool
  | JStr jsstring
  | JArr "jsval list"
  | JObj "(jsstring \<times> jsval) list"

fun truthy :: "jsval \<Rightarrow> bool" where
  "truthy Undefined = False"
| "truthy JNull = False"
| "truthy (JBool b) = b"
| "truthy (JNum text nonzero) = nonzero"
| "truthy (JStr s) = (s \<noteq> [])"
| "truthy (JArr xs) = True"
| "truthy (JObj kvs) = True"

fun dec :: "nat \<Rightarrow> jsstring" where
  "dec n = (if n < 10 then [of_nat (48 + n)]
            else dec (n div 10) @ [of_nat (48 + n mod 10)])"

declare dec.simps [simp del]

fun join_comma :: "jsstring list \<Rightarrow> jsstring" where
  "join_comma [] = []"
| "join_comma [s] = s"
| "join_comma (s # t # ts) = s @ lit '','' @ join_comma (t # ts)"

text \<open>
  Errors. An \<open>Error\<close> carries the message it was created with (by the source's
  \<open>new Error(..)\<close> or by a rejected platform call). A \<open>TypeError\<close> or \<open>URIError\<close>
  raised by the engine has an engine-defined message, looked up through \<open>fault_message\<close>.
\<close>

datatype fault =
    ReadOfNullish jsval jsstring
  | NotAFunction jsstring
  | CannotConvert
  | URIMalformed

datatype js_error =
    Error jsstring
  | EngineError fault

fun error_message :: "(fault \<Rightarrow> jsstring) \<Rightarrow> js_error \<Rightarrow> jsstring" where
  "error_message fm (Error m) = m"
| "error_message fm (EngineError f) = fm f"

definition bind_e :: "'e + 'a \<Rightarrow> ('a \<Rightarrow> 'e + 'b) \<Rightarrow> 'e + 'b" where
  "bind_e m f = (case m of Inl e \<Rightarrow> Inl e | Inr x \<Rightarrow> f x)"

text \<open>
  The abstract operation ToString, as template literals, string concatenation,
  \<open>new Error\<close>, \<open>encodeURIComponent\<close> and DOM string attributes apply it. An object is
  converted through its \<open>toString\<close>: the inherited one gives \<open>[object Object]\<close>, but an own
  property of that name (never callable in these values) hides it and the conversion throws a
  TypeError. An array is converted by \<open>join\<close>: its elements from left to right, null and
  undefined as the empty string; the first element that throws makes the conversion throw.
\<close>

fun ToString :: "jsval \<Rightarrow> js_error + jsstring"
  and join_elements :: "jsval list \<Rightarrow> js_error + jsstring list" where
  "ToString Undefined = Inr (lit ''undefined'')"
| "ToString JNull = Inr (lit ''null'')"
| "ToString (JBool b) = Inr (if b then lit ''true'' else lit ''false'')"
| "ToString (JNum text nonzero) = Inr text"
| "ToString (JStr s) = Inr s"
| "ToString (JArr xs) =
     (case join_elements xs of Inl e \<Rightarrow> Inl e | Inr parts \<Rightarrow> Inr (join_comma parts))"
| "ToString (JObj kvs) =
     (case map_of kvs (lit ''toString'') of
        Some v \<Rightarrow> Inl (EngineError CannotConvert)
      | None \<Rightarrow> Inr (lit ''[object Object]''))"
| "join_elements [] = Inr []"
| "join_elements (x # xs) =
     (case (if x = Undefined \<or> x = JNull then Inr [] else ToString x) of
        Inl e \<Rightarrow> Inl e
      | Inr part \<Rightarrow>
          (case join_elements xs of Inl e \<Rightarrow> Inl e | Inr parts \<Rightarrow> Inr (part # parts)))"

text \<open>
  Property read \<open>v.p\<close> / \<open>v[p]\<close>. Reading from null or undefined throws; an object yields
  its own property or undefined; arrays and strings have their index properties and \<open>length\<close>.
  Prototype members are function objects; the source reads none of them as a property and
  calls only \<open>trim\<close>, which is \<open>call_trim\<close> below.
\<close>

definition index_of :: "nat \<Rightarrow> jsstring \<Rightarrow> nat option" where
  "index_of n p = (case filter (\<lambda>i. dec i = p) [0..<n] of [] \<Rightarrow> None | i # _ \<Rightarrow> Some i)"

fun get_prop :: "jsval \<Rightarrow> jsstring \<Rightarrow> js_error + jsval" where
  "get_prop Undefined p = Inl (EngineError (ReadOfNullish Undefined p))"
| "get_prop JNull p = Inl (EngineError (ReadOfNullish JNull p))"
| "get_prop (JBool b) p = Inr Undefined"
| "get_prop (JNum text nonzero) p = Inr Undefined"
| "get_prop (JStr s) p =
     Inr (case index_of (length s) p of
            Some i \<Rightarrow> JStr [s ! i]
          | None \<Rightarrow> if p = lit ''length'' then JNum (dec (length s)) (s \<noteq> []) else Undefined)"
| "get_prop (JArr xs) p =
     Inr (case index_of (length xs) p of
            Some i \<Rightarrow> xs ! i
          | None \<Rightarrow> if p = lit ''length'' then JNum (dec (length xs)) (xs \<noteq> []) else Undefined)"
| "get_prop (JObj kvs) p = Inr (case map_of kvs p of None \<Rightarrow> Undefined | Some v \<Rightarrow> v)"

text \<open>Optional chaining \<open>v?.p\<close>.\<close>

definition get_prop_opt :: "jsval \<Rightarrow> jsstring \<Rightarrow> js_error + jsval" where
  "get_prop_opt v p = (if v = Undefined \<or> v = JNull then Inr Undefined else get_prop v p)"

text \<open>The method call \<open>v.trim()\<close>.\<close>

fun call_trim :: "jsval \<Rightarrow> js_error + jsstring" where
  "call_trim Undefined = Inl (EngineError (ReadOfNullish Undefined (lit ''trim'')))"
| "call_trim JNull = Inl (EngineError (ReadOfNullish JNull (lit ''trim'')))"
| "call_trim (JStr s) = Inr (trim s)"
| "call_trim v = Inl (EngineError (NotAFunction (lit ''trim'')))"

section \<open>Background script: \<open>processCommand\<close>\<close>

record request =
  url :: jsstring
  http_method :: jsstring
  headers :: "(jsstring \<times> jsval) list"
  body :: jsval

datatype fetch_outcome =
    FetchRejected js_error
  | Response bool "js_error + jsval"

text \<open>
  The platform as the background script sees it: the outcome of
  \<open>chrome.storage.sync.get(['apiKey'])\<close> (a rejection, or the stored value, undefined when
  unset), the outcome of \<open>fetch\<close> for a request (a rejection, or a response with its \<open>ok\<close>
  flag and the outcome of \<open>response.json()\<close>), and the engine's error messages.
\<close>

record env =
  storage_get :: "js_error + jsval"
  fetch :: "request \<Rightarrow> fetch_outcome"
  fault_message :: "fault \<Rightarrow> jsstring"

definition nl :: jsstring where
  "nl = [0x0A]"

definition arrow :: jsstring where
  "arrow = [0x2192]"

definition prompt_text :: "jsstring \<Rightarrow> jsstring" where
  \<open>prompt_text command =
     lit ''You are a YouTube music assistant. The user said: "'' @ command @ lit ''"''
     @ nl @ nl
     @ lit ''Extract the music search query from this command. Respond with ONLY the search query text, nothing else.''
     @ nl @ nl
     @ lit ''Examples:'' @ nl
     @ lit ''User: "play lofi hip hop" '' @ arrow @ lit '' "lofi hip hop"'' @ nl
     @ lit ''User: "play something energetic" '' @ arrow @ lit '' "energetic music"'' @ nl
     @ lit ''User: "I want to hear jazz" '' @ arrow @ lit '' "jazz music"'' @ nl
     @ lit ''User: "play Taylor Swift" '' @ arrow @ lit '' "Taylor Swift"'' @ nl
     @ nl
     @ lit ''Now extract the search query:''\<close>

text \<open>The template literal of the request: \<open>${command}\<close> converts the command to a string,
  which throws for a command that has no string conversion.\<close>

definition prompt :: "jsval \<Rightarrow> js_error + jsstring" where
  "prompt command = bind_e (ToString command) (\<lambda>text. Inr (prompt_text text))"

definition build_request :: "jsval \<Rightarrow> jsstring \<Rightarrow> request" where
  "build_request apiKey content =
     \<lparr> url = lit ''https://api.anthropic.com/v1/messages'',
       http_method = lit ''POST'',
       headers = [(lit ''Content-Type'', JStr (lit ''application/json'')),
                  (lit ''x-api-key'', apiKey),
                  (lit ''anthropic-version'', JStr (lit ''2023-06-01''))],
       body = JObj [(lit ''model'', JStr (lit ''claude-sonnet-4-5-20250929'')),
                    (lit ''max_tokens'', JNum (lit ''200'') True),
                    (lit ''messages'',
                       JArr [JObj [(lit ''role'', JStr (lit ''user'')),
                                   (lit ''content'', JStr content)]])] \<rparr>"

definition no_key_message :: jsstring where
  "no_key_message = lit ''API key not set. Click the extension icon to configure.''"

definition failure_result :: "jsstring \<Rightarrow> jsval" where
  "failure_result m = JObj [(lit ''success'', JBool False), (lit ''error'', JStr m)]"

definition searching_prefix :: jsstring where
  "searching_prefix = [0xD83C, 0xDFB5] @ lit '' Searching for: ''"

definition success_result :: "jsstring \<Rightarrow> jsval" where
  "success_result searchQuery =
     JObj [(lit ''success'', JBool True),
           (lit ''message'', JStr (searching_prefix @ searchQuery)),
           (lit ''searchQuery'', JStr searchQuery)]"

text \<open>The statements after \<open>if (!response.ok)\<close>: the error body is read and an \<open>Error\<close> is thrown.\<close>

definition not_ok_branch :: "js_error + jsval \<Rightarrow> js_error + jsval" where
  "not_ok_branch js =
     bind_e js (\<lambda>error.
     bind_e (get_prop error (lit ''error'')) (\<lambda>e.
     bind_e (get_prop_opt e (lit ''message'')) (\<lambda>m.
     bind_e (ToString (if truthy m then m else JStr (lit ''API request failed''))) (\<lambda>text.
     Inl (Error text)))))"

text \<open>The statements for an ok response: \<open>data.content[0].text.trim()\<close> and the result.\<close>

definition ok_branch :: "js_error + jsval \<Rightarrow> js_error + jsval" where
  "ok_branch js =
     bind_e js (\<lambda>data.
     bind_e (get_prop data (lit ''content'')) (\<lambda>c.
     bind_e (get_prop c (lit ''0'')) (\<lambda>x.
     bind_e (get_prop x (lit ''text'')) (\<lambda>t.
     bind_e (call_trim t) (\<lambda>searchQuery.
     Inr (success_result searchQuery))))))"

text \<open>
  The body of the \<open>try\<close> block, with the list of requests passed to \<open>fetch\<close>, in order.
  The arguments of \<open>fetch\<close> are evaluated before the call: when the template literal throws,
  no request is made.
\<close>

definition processCommand_try :: "env \<Rightarrow> jsval \<Rightarrow> (js_error + jsval) \<times> request list" where
  "processCommand_try w command =
     (case storage_get w of
        Inl e \<Rightarrow> (Inl e, [])
      | Inr apiKey \<Rightarrow>
          if \<not> truthy apiKey then (Inr (failure_result no_key_message), [])
          else
            (case prompt command of
               Inl e \<Rightarrow> (Inl e, [])
             | Inr content \<Rightarrow>
                 let req = build_request apiKey content in
                 (case fetch w req of
                    FetchRejected e \<Rightarrow> (Inl e, [req])
                  | Response ok js \<Rightarrow>
                      ((if \<not> ok then not_ok_branch js else ok_branch js), [req]))))"

text \<open>\<open>processCommand\<close>: the \<open>try\<close> block with its \<open>catch\<close>. The first component is the
  settlement of the returned promise (\<open>Inl\<close> a rejection).\<close>

definition processCommand :: "env \<Rightarrow> jsval \<Rightarrow> (js_error + jsval) \<times> request list" where
  "processCommand w command =
     (case processCommand_try w command of
        (Inl error, log) \<Rightarrow> (Inr (failure_result (error_message (fault_message w) error)), log)
      | (Inr result, log) \<Rightarrow> (Inr result, log))"

text \<open>
  The \<open>chrome.runtime.onMessage\<close> listener: the response passed to \<open>sendResponse\<close> (if any)
  and the requests made. Reading \<open>request.type\<close> throws when the request is null or undefined.
\<close>

definition onMessage :: "env \<Rightarrow> jsval \<Rightarrow> js_error + (jsval option \<times> request list)" where
  "onMessage w request =
     bind_e (get_prop request (lit ''type'')) (\<lambda>t.
       if t = JStr (lit ''PROCESS_COMMAND'') then
         bind_e (get_prop request (lit ''command'')) (\<lambda>command.
           case processCommand w command of
             (Inr result, log) \<Rightarrow> Inr (Some result, log)
           | (Inl error, log) \<Rightarrow>
               Inr (Some (failure_result (error_message (fault_message w) error)), log))
       else Inr (None, []))"

section \<open>Content script\<close>

text \<open>
  \<open>encodeURIComponent\<close>: code units of the unescaped set are kept; any other code point is
  encoded in UTF-8 and each octet written as \<open>%XX\<close>; an unpaired surrogate throws URIError.
\<close>

definition unescaped :: "16 word \<Rightarrow> bool" where
  "unescaped c \<longleftrightarrow>
     (0x41 \<le> c \<and> c \<le> 0x5A) \<or> (0x61 \<le> c \<and> c \<le> 0x7A) \<or> (0x30 \<le> c \<and> c \<le> 0x39)
     \<or> c \<in> set (0x27 # lit ''-_.!~*()'')"

definition hexdigit :: "nat \<Rightarrow> 16 word" where
  "hexdigit n = (if n < 10 then of_nat (48 + n) else of_nat (55 + n))"

definition percent :: "nat \<Rightarrow> jsstring" where
  "percent b = [0x25, hexdigit (b div 16), hexdigit (b mod 16)]"

definition utf8 :: "nat \<Rightarrow> nat list" where
  "utf8 cp =
     (if cp < 0x80 then [cp]
      else if cp < 0x800 then [0xC0 + cp div 64, 0x80 + cp mod 64]
      else if cp < 0x10000 then
        [0xE0 + cp div 4096, 0x80 + (cp div 64) mod 64, 0x80 + cp mod 64]
      else
        [0xF0 + cp div 262144, 0x80 + (cp div 4096) mod 64,
         0x80 + (cp div 64) mod 64, 0x80 + cp mod 64])"

definition encode_cp :: "nat \<Rightarrow> jsstring" where
  "encode_cp cp = concat (map percent (utf8 cp))"

definition is_lead :: "16 word \<Rightarrow> bool" where
  "is_lead c \<longleftrightarrow> 0xD800 \<le> c \<and> c \<le> 0xDBFF"

definition is_trail :: "16 word \<Rightarrow> bool" where
  "is_trail c \<longleftrightarrow> 0xDC00 \<le> c \<and> c \<le> 0xDFFF"

fun encodeURIComponent :: "jsstring \<Rightarrow> js_error + jsstring" where
  "encodeURIComponent [] = Inr []"
| "encodeURIComponent (c # cs) =
     (if unescaped c then
        bind_e (encodeURIComponent cs) (\<lambda>r. Inr (c # r))
      else if is_trail c then Inl (EngineError URIMalformed)
      else if is_lead c then
        (case cs of
           [] \<Rightarrow> Inl (EngineError URIMalformed)
         | d # ds \<Rightarrow>
             if is_trail d then
               bind_e (encodeURIComponent ds) (\<lambda>r.
                 Inr (encode_cp ((unat c - 0xD800) * 0x400 + (unat d - 0xDC00) + 0x10000) @ r))
             else Inl (EngineError URIMalformed))
      else
        bind_e (encodeURIComponent cs) (\<lambda>r. Inr (encode_cp (unat c) @ r)))"

text \<open>
  The page as the content script sees it, once \<open>createCommandBox\<close> has run: the command
  input, the status element, the location of the document, the location last assigned to
  \<open>window.location.href\<close> while that navigation has not yet replaced the document, the
  elements of the document that match \<open>ytd-video-renderer a#video-title\<close> (in document
  order), the pending timers of \<open>updateStatus\<close> (5 s), of \<open>searchAndPlayYouTube\<close>
  (1.5 s) and of the welcome message (1 s), and two logs: the messages passed to
  \<open>chrome.runtime.sendMessage\<close> and the elements clicked by the script.
\<close>

datatype element = Element nat jsstring

fun textContent :: "element \<Rightarrow> jsstring" where
  "textContent (Element i t) = t"

record page =
  input_value :: jsstring
  status_text :: jsstring
  status_class :: jsstring
  href :: jsstring
  navigating_to :: "jsstring option"
  document_matches :: "element list"
  outbox :: "jsval list"
  status_timers :: nat
  play_timers :: nat
  welcome_timers :: nat
  clicked :: "element list"

text \<open>Assigning a value to \<open>textContent\<close>: null and undefined give the empty string, any
  other value is converted to a string, which can throw.\<close>

definition as_textContent :: "jsval \<Rightarrow> js_error + jsstring" where
  "as_textContent v = (if v = Undefined \<or> v = JNull then Inr [] else ToString v)"

text \<open>\<open>updateStatus\<close> from the assignment of the class name on, with the text already
  converted; this is all of \<open>updateStatus\<close> when the message is a string.\<close>

definition updateStatus_str :: "jsstring \<Rightarrow> jsstring \<Rightarrow> page \<Rightarrow> page" where
  "updateStatus_str text type s =
     s\<lparr> status_text := text,
        status_class := lit ''yt-ai-status '' @ type,
        status_timers := (if type = lit ''success'' \<or> type = lit ''error''
                          then Suc (status_timers s) else status_timers s) \<rparr>"

definition updateStatus :: "jsval \<Rightarrow> jsstring \<Rightarrow> page \<Rightarrow> js_error + page" where
  "updateStatus message type s =
     bind_e (as_textContent message) (\<lambda>text. Inr (updateStatus_str text type s))"

text \<open>The callback of the 5 s timer set by \<open>updateStatus\<close>.\<close>

definition status_timer_fire :: "page \<Rightarrow> page" where
  "status_timer_fire s =
     s\<lparr> status_text := lit ''Ready - Type a command!'',
        status_class := lit ''yt-ai-status'',
        status_timers := status_timers s - 1 \<rparr>"

text \<open>The callback of the 1 s timer set when the command box has been created.\<close>

definition welcome_timer_fire :: "page \<Rightarrow> page" where
  "welcome_timer_fire s =
     (updateStatus_str (lit ''AI Agent ready! Press K to focus command box.'') (lit ''success'') s)
       \<lparr> welcome_timers := welcome_timers s - 1 \<rparr>"

definition search_url_prefix :: jsstring where
  "search_url_prefix = lit ''https://www.youtube.com/results?search_query=''"

text \<open>\<open>searchAndPlayYouTube\<close> up to setting the timer; the timer's callback is
  \<open>play_timer_fire\<close>. Assigning \<open>window.location.href\<close> starts a navigation; the document
  stays as it is until the browser has loaded the new one.\<close>

definition searchAndPlayYouTube :: "jsval \<Rightarrow> page \<Rightarrow> js_error + page" where
  "searchAndPlayYouTube query s =
     bind_e (ToString query) (\<lambda>text.
     bind_e (encodeURIComponent text) (\<lambda>enc.
       let searchUrl = search_url_prefix @ enc;
           s1 = (if sublist (lit ''/watch'') (href s)
                 then s\<lparr> navigating_to := Some searchUrl \<rparr>
                 else s\<lparr> navigating_to := Some searchUrl \<rparr>)
       in Inr (s1\<lparr> play_timers := Suc (play_timers s1) \<rparr>)))"

text \<open>
  The callback of the 1.5 s timer: \<open>querySelector\<close> returns the first element of the
  document that matches, or null.
\<close>

definition play_timer_fire :: "page \<Rightarrow> page" where
  "play_timer_fire s =
     (case document_matches s of
        [] \<Rightarrow> s\<lparr> play_timers := play_timers s - 1 \<rparr>
      | firstVideo # _ \<Rightarrow>
          (updateStatus_str (lit ''Playing: '' @ textContent firstVideo) (lit ''success'') s)
            \<lparr> clicked := clicked s @ [firstVideo], play_timers := play_timers s - 1 \<rparr>)"

text \<open>
  \<open>handleCommand\<close> runs in two parts: up to the \<open>await\<close> of \<open>sendMessage\<close>, and from the
  settlement of that promise on (\<open>Inl\<close> a rejection, \<open>Inr\<close> the response).
\<close>

definition handleCommand_begin :: "jsval \<Rightarrow> page \<Rightarrow> page" where
  "handleCommand_begin command s =
     (updateStatus_str (lit ''Processing...'') (lit ''loading'') s)
       \<lparr> outbox := outbox s @ [JObj [(lit ''type'', JStr (lit ''PROCESS_COMMAND'')),
                                    (lit ''command'', command)]] \<rparr>"

definition handleCommand_catch :: "(fault \<Rightarrow> jsstring) \<Rightarrow> js_error \<Rightarrow> page \<Rightarrow> page" where
  "handleCommand_catch fm error s =
     updateStatus_str (lit ''Error: '' @ error_message fm error) (lit ''error'') s"

definition handleCommand_resume ::
  "(fault \<Rightarrow> jsstring) \<Rightarrow> js_error + jsval \<Rightarrow> page \<Rightarrow> page" where
  "handleCommand_resume fm outcome s =
     (case outcome of
        Inl e \<Rightarrow> handleCommand_catch fm e s
      | Inr response \<Rightarrow>
          (case get_prop response (lit ''success'') of
             Inl e \<Rightarrow> handleCommand_catch fm e s
           | Inr ok \<Rightarrow>
               if truthy ok then
                 (case get_prop response (lit ''message'') of
                    Inl e \<Rightarrow> handleCommand_catch fm e s
                  | Inr m \<Rightarrow>
                      (case updateStatus m (lit ''success'') s of
                         Inl e \<Rightarrow> handleCommand_catch fm e s
                       | Inr s1 \<Rightarrow>
                           (case get_prop response (lit ''searchQuery'') of
                              Inl e \<Rightarrow> handleCommand_catch fm e s1
                            | Inr q \<Rightarrow>
                                if truthy q then
                                  (case searchAndPlayYouTube q s1 of
                                     Inl e \<Rightarrow> handleCommand_catch fm e s1
                                   | Inr s2 \<Rightarrow> s2)
                                else s1)))
               else
                 (case get_prop response (lit ''error'') of
                    Inl e \<Rightarrow> handleCommand_catch fm e s
                  | Inr er \<Rightarrow>
                      (case ToString er of
                         Inl e \<Rightarrow> handleCommand_catch fm e s
                       | Inr text \<Rightarrow>
                           updateStatus_str (lit ''Error: '' @ text) (lit ''error'') s))))"

text \<open>The listeners of \<open>setupEventListeners\<close> that issue commands.\<close>

definition sendBtn_click :: "page \<Rightarrow> page" where
  "sendBtn_click s =
     (let command = trim (input_value s) in
      if command \<noteq> [] then (handleCommand_begin (JStr command) s)\<lparr> input_value := [] \<rparr>
      else s)"

definition input_keypress :: "jsstring \<Rightarrow> page \<Rightarrow> page" where
  "input_keypress key s =
     (if key = lit ''Enter'' then
        (let command = trim (input_value s) in
         if command \<noteq> []
         then (handleCommand_begin (JStr command) s)\<lparr> input_value := [] \<rparr>
         else s)
      else s)"

definition suggestion_click :: "jsstring \<Rightarrow> page \<Rightarrow> page" where
  "suggestion_click btn_text s =
     (handleCommand_begin (JStr btn_text) (s\<lparr> input_value := btn_text \<rparr>))
       \<lparr> input_value := [] \<rparr>"

text \<open>
  The browser completes a navigation: the document at the assigned location replaces the
  old one, whose pending timers are discarded with it, and the content script starts afresh
  in the new document: \<open>createCommandBox\<close> gives an empty input and the idle status, and the
  timer of the welcome message is set. The argument is the list of elements of the new
  document that match the result selector. The two logs are kept.
\<close>

definition page_loaded :: "element list \<Rightarrow> page \<Rightarrow> page" where
  "page_loaded matches s =
     (case navigating_to s of
        None \<Rightarrow> s
      | Some location \<Rightarrow>
          \<lparr> input_value = [],
            status_text = lit ''Ready - Type a command!'',
            status_class = lit ''yt-ai-status'',
            href = location,
            navigating_to = None,
            document_matches = matches,
            outbox = outbox s,
            status_timers = 0,
            play_timers = 0,
            welcome_timers = 1,
            clicked = clicked s \<rparr>)"

text \<open>
  What can happen on the page, in any order: the user edits the input, clicks Send, presses
  a key in the input, clicks a suggestion; a pending \<open>sendMessage\<close> settles; a pending timer
  fires (a timer that is not pending does not); a navigation completes.
\<close>

datatype event =
    Typed jsstring
  | SendClick
  | KeyPress jsstring
  | SuggestionClick jsstring
  | Settled "js_error + jsval"
  | StatusTimer
  | PlayTimer
  | WelcomeTimer
  | Loaded "element list"

fun step :: "(fault \<Rightarrow> jsstring) \<Rightarrow> page \<Rightarrow> event \<Rightarrow> page" where
  "step fm s (Typed v) = s\<lparr> input_value := v \<rparr>"
| "step fm s SendClick = sendBtn_click s"
| "step fm s (KeyPress key) = input_keypress key s"
| "step fm s (SuggestionClick t) = suggestion_click t s"
| "step fm s (Settled outcome) = handleCommand_resume fm outcome s"
| "step fm s StatusTimer = (if status_timers s = 0 then s else status_timer_fire s)"
| "step fm s PlayTimer = (if play_timers s = 0 then s else play_timer_fire s)"
| "step fm s WelcomeTimer = (if welcome_timers s = 0 then s else welcome_timer_fire s)"
| "step fm s (Loaded matches) = page_loaded matches s"

definition run :: "(fault \<Rightarrow> jsstring) \<Rightarrow> page \<Rightarrow> event list \<Rightarrow> page" where
  "run fm s evs = foldl (step fm) s evs"

section \<open>Popup script\<close>

text \<open>
  The popup once its \<open>DOMContentLoaded\<close> handler has attached the listeners: the key input,
  the status element, the value stored under \<open>apiKey\<close>, the values passed to
  \<open>chrome.storage.sync.set\<close> so far, and the pending timers (1 s to mask the input, 3 s to
  reset the status class).
\<close>

record popup =
  apiKeyInput_value :: jsstring
  popup_status_text :: jsstring
  popup_status_class :: jsstring
  stored_apiKey :: jsval
  set_calls :: "jsval list"
  mask_timers :: nat
  class_timers :: nat

definition popup_loaded :: "popup \<Rightarrow> js_error + popup" where
  "popup_loaded s =
     (if truthy (stored_apiKey s) then
        bind_e (ToString (stored_apiKey s)) (\<lambda>text. Inr (s\<lparr> apiKeyInput_value := text \<rparr>))
      else Inr s)"

definition showStatus :: "jsstring \<Rightarrow> jsstring \<Rightarrow> popup \<Rightarrow> popup" where
  "showStatus message type s =
     s\<lparr> popup_status_text := message,
        popup_status_class := lit ''status '' @ type,
        class_timers := (if type = lit ''success'' then Suc (class_timers s)
                         else class_timers s) \<rparr>"

definition saved_message :: jsstring where
  "saved_message = [0x2705] @ lit '' Settings saved successfully!''"

definition save_failed_message :: jsstring where
  "save_failed_message = [0x274C] @ lit '' Error saving settings''"

text \<open>
  The click handler of the save button. Its first argument is the outcome of
  \<open>chrome.storage.sync.set\<close> should the handler call it: \<open>None\<close> when the value is stored,
  \<open>Some e\<close> when the call rejects and the stored value stays as it was.
\<close>

definition saveBtn_click :: "js_error option \<Rightarrow> popup \<Rightarrow> popup" where
  "saveBtn_click set_outcome s =
     (let apiKey = trim (apiKeyInput_value s) in
      if apiKey = [] then showStatus (lit ''Please enter an API key'') (lit ''error'') s
      else if \<not> prefix (lit ''sk-ant-'') apiKey then
        showStatus (lit ''Invalid API key format'') (lit ''error'') s
      else
        (case set_outcome of
           None \<Rightarrow>
             (showStatus saved_message (lit ''success'')
                (s\<lparr> stored_apiKey := JStr apiKey,
                    set_calls := set_calls s @ [JStr apiKey] \<rparr>))
               \<lparr> mask_timers := Suc (mask_timers s) \<rparr>
         | Some error \<Rightarrow>
             showStatus save_failed_message (lit ''error'')
               (s\<lparr> set_calls := set_calls s @ [JStr apiKey] \<rparr>)))"

definition mask_timer_fire :: "popup \<Rightarrow> popup" where
  "mask_timer_fire s =
     s\<lparr> apiKeyInput_value := replicate 16 0x2022, mask_timers := mask_timers s - 1 \<rparr>"

definition class_timer_fire :: "popup \<Rightarrow> popup" where
  "class_timer_fire s =
     s\<lparr> popup_status_class := lit ''status'', class_timers := class_timers s - 1 \<rparr>"

definition apiKeyInput_keypress :: "jsstring \<Rightarrow> js_error option \<Rightarrow> popup \<Rightarrow> popup" where
  "apiKeyInput_keypress key set_outcome s =
     (if key = lit ''Enter'' then saveBtn_click set_outcome s else s)"

datatype popup_event =
    PopupTyped jsstring
  | SaveClick "js_error option"
  | PopupKeyPress jsstring "js_error option"
  | MaskTimer
  | ClassTimer

fun popup_step :: "popup \<Rightarrow> popup_event \<Rightarrow> popup" where
  "popup_step s (PopupTyped v) = s\<lparr> apiKeyInput_value := v \<rparr>"
| "popup_step s (SaveClick out) = saveBtn_click out s"
| "popup_step s (PopupKeyPress key out) = apiKeyInput_keypress key out s"
| "popup_step s MaskTimer = mask_timer_fire s"
| "popup_step s ClassTimer = class_timer_fire s"

definition popup_run :: "popup \<Rightarrow> popup_event list \<Rightarrow> popup" where
  "popup_run s evs = foldl popup_step s evs"

section \<open>Session context\<close>

text \<open>
  Modelled from the spec: the SessionContext component (\<open>record\<close>, \<open>recent\<close>) is not part
  of the extension's scripts. The spec gives it as an ordered sequence of entries of bounded
  length, oldest evicted first, append-only; \<open>recent(k)\<close> is the ordered sequence of the last k
  entries. The bound is not fixed by the spec and is a field of the context.
\<close>

record 'e SessionContext =
  capacity :: nat
  entries :: "'e list"

definition empty_context :: "nat \<Rightarrow> 'e SessionContext" where
  "empty_context cap = \<lparr> capacity = cap, entries = [] \<rparr>"

definition record_entry :: "'e SessionContext \<Rightarrow> 'e \<Rightarrow> 'e SessionContext" where
  "record_entry c e =
     (let xs = entries c @ [e]
      in c\<lparr> entries := drop (length xs - capacity c) xs \<rparr>)"

definition recent :: "nat \<Rightarrow> 'e SessionContext \<Rightarrow> 'e list" where
  "recent k c = drop (length (entries c) - k) (entries c)"

definition record_all :: "'e SessionContext \<Rightarrow> 'e list \<Rightarrow> 'e SessionContext" where
  "record_all c es = foldl record_entry c es"

section \<open>The spec's wording\<close>

text \<open>The closed Action set of the spec, and "the Intent's action is a member of it", read
  on a result object.\<close>

definition spec_Action_names :: "jsstring list" where
  "spec_Action_names =
     [lit ''search'', lit ''play'', lit ''pause'', lit ''skip'', lit ''previous'',
      lit ''set-volume'', lit ''queue'', lit ''create-playlist'', lit ''like'',
      lit ''shuffle-toggle'', lit ''now-playing'']"

definition spec_action_in_closed_set :: "jsval \<Rightarrow> bool" where
  "spec_action_in_closed_set intent =
     (case get_prop intent (lit ''action'') of
        Inr (JStr a) \<Rightarrow> a \<in> set spec_Action_names
      | _ \<Rightarrow> False)"

text \<open>The spec's failure result: success false and, besides it, an error kind and a
  human-readable message, that is at least two further properties.\<close>

definition spec_failure_shape :: "jsval \<Rightarrow> bool" where
  "spec_failure_shape r =
     (case r of
        JObj kvs \<Rightarrow>
          map_of kvs (lit ''success'') = Some (JBool False)
          \<and> 2 \<le> length (remdups (filter (\<lambda>k. k \<noteq> lit ''success'') (map fst kvs)))
      | _ \<Rightarrow> False)"

text \<open>The spec's repair attempts: every request after the first one is a re-prompt.\<close>

definition spec_repair_attempts :: "request list \<Rightarrow> nat" where
  "spec_repair_attempts log = length log - 1"

section \<open>Example inputs\<close>

definition example_fault_message :: "fault \<Rightarrow> jsstring" where
  "example_fault_message f = lit ''engine error''"

definition api_reply :: "jsstring \<Rightarrow> fetch_outcome" where
  "api_reply t =
     Response True
       (Inr (JObj [(lit ''content'',
                     JArr [JObj [(lit ''type'', JStr (lit ''text'')),
                                 (lit ''text'', JStr t)]])]))"

text \<open>A configured key and a model that answers \<open>" lofi hip hop\n"\<close> to every request.\<close>

definition env_lofi :: env where
  "env_lofi =
     \<lparr> storage_get = Inr (JStr (lit ''sk-ant-test'')),
       fetch = (\<lambda>req. api_reply (lit '' lofi hip hop'' @ nl)),
       fault_message = example_fault_message \<rparr>"

text \<open>A configured key and an ok response whose body is not JSON.\<close>

definition env_unparseable :: env where
  "env_unparseable =
     \<lparr> storage_get = Inr (JStr (lit ''sk-ant-test'')),
       fetch = (\<lambda>req. Response True (Inl (Error (lit ''Unexpected token < in JSON'')))),
       fault_message = example_fault_message \<rparr>"

text \<open>A configured key and no network.\<close>

definition env_offline :: env where
  "env_offline =
     \<lparr> storage_get = Inr (JStr (lit ''sk-ant-test'')),
       fetch = (\<lambda>req. FetchRejected (Error (lit ''Failed to fetch''))),
       fault_message = example_fault_message \<rparr>"

text \<open>No key in storage.\<close>

definition env_no_key :: env where
  "env_no_key =
     \<lparr> storage_get = Inr Undefined,
       fetch = (\<lambda>req. api_reply (lit ''jazz music'')),
       fault_message = example_fault_message \<rparr>"

text \<open>A configured key and a model that answers \<open>"jazz music"\<close> to the command
  \<open>"play jazz"\<close> and \<open>"rock music"\<close> to anything else.\<close>

definition env_two :: env where
  "env_two =
     \<lparr> storage_get = Inr (JStr (lit ''sk-ant-test'')),
       fetch = (\<lambda>req. if body req = body (build_request (JStr (lit ''sk-ant-test''))
                                            (prompt_text (lit ''play jazz'')))
                       then api_reply (lit ''jazz music'')
                       else api_reply (lit ''rock music'')),
       fault_message = example_fault_message \<rparr>"

definition page0 :: page where
  "page0 =
     \<lparr> input_value = [],
       status_text = lit ''Ready - Type a command!'',
       status_class = lit ''yt-ai-status'',
       href = lit ''https://www.youtube.com/'',
       navigating_to = None,
       document_matches = [],
       outbox = [],
       status_timers = 0,
       play_timers = 0,
       welcome_timers = 1,
       clicked = [] \<rparr>"

text \<open>A results page for an earlier search, \<open>jazz\<close>, and the results that the search for
  \<open>lofi hip hop\<close> will show.\<close>

definition page_jazz :: page where
  "page_jazz =
     page0\<lparr> href := lit ''https://www.youtube.com/results?search_query=jazz'',
            document_matches := [Element 1 (lit ''Jazz Classics''),
                                 Element 2 (lit ''Smooth Jazz'')] \<rparr>"

definition lofi_results :: "element list" where
  "lofi_results = [Element 10 (lit ''Lofi Girl''), Element 11 (lit ''Chillhop'')]"

definition popup0 :: popup where
  "popup0 =
     \<lparr> apiKeyInput_value = [],
       popup_status_text = [],
       popup_status_class = lit ''status'',
       stored_apiKey = Undefined,
       set_calls = [],
       mask_timers = 0,
       class_timers = 0 \<rparr>"

section \<open>Auxiliary facts\<close>

lemma updateStatus_str_fields [simp]:
  "status_text (updateStatus_str m t s) = m"
  "status_class (updateStatus_str m t s) = lit ''yt-ai-status '' @ t"
  "href (updateStatus_str m t s) = href s"
  "navigating_to (updateStatus_str m t s) = navigating_to s"
  "document_matches (updateStatus_str m t s) = document_matches s"
  "outbox (updateStatus_str m t s) = outbox s"
  "play_timers (updateStatus_str m t s) = play_timers s"
  "welcome_timers (updateStatus_str m t s) = welcome_timers s"
  "clicked (updateStatus_str m t s) = clicked s"
  "input_value (updateStatus_str m t s) = input_value s"
  by (simp_all add: updateStatus_str_def)

lemma prompt_JStr: "prompt (JStr c) = Inr (prompt_text c)"
  by (simp add: prompt_def bind_e_def)

lemma processCommand_log: "snd (processCommand w c) = snd (processCommand_try w c)"
  by (simp add: processCommand_def split: prod.splits sum.splits)

lemma ok_branch_cases:
  "(\<exists>e. ok_branch js = Inl e) \<or> (\<exists>q. ok_branch js = Inr (success_result q))"
  by (auto simp: ok_branch_def bind_e_def split: sum.splits)

lemma not_ok_branch_Inl: "\<exists>e. not_ok_branch js = Inl e"
  by (auto simp: not_ok_branch_def bind_e_def split: sum.splits)

lemma processCommand_try_cases:
  "(\<exists>e. fst (processCommand_try w c) = Inl e)
   \<or> fst (processCommand_try w c) = Inr (failure_result no_key_message)
   \<or> (\<exists>q. fst (processCommand_try w c) = Inr (success_result q))"
  using ok_branch_cases not_ok_branch_Inl
  by (auto simp: processCommand_try_def Let_def split: sum.splits fetch_outcome.splits)

lemma processCommand_shape:
  "\<exists>r. fst (processCommand w c) = Inr r
       \<and> ((\<exists>q. r = success_result q) \<or> (\<exists>m. r = failure_result m))"
proof -
  obtain res log where tr: "processCommand_try w c = (res, log)"
    by (cases "processCommand_try w c")
  show ?thesis
  proof (cases res)
    case (Inl e)
    with tr show ?thesis by (auto simp: processCommand_def)
  next
    case (Inr r)
    with tr have "fst (processCommand w c) = Inr r"
      by (simp add: processCommand_def)
    moreover from tr Inr processCommand_try_cases [of w c]
    have "(\<exists>q. r = success_result q) \<or> (\<exists>m. r = failure_result m)" by auto
    ultimately show ?thesis by blast
  qed
qed

lemma processCommand_caught:
  "fst (processCommand_try w c) = Inl e \<Longrightarrow>
   fst (processCommand w c) = Inr (failure_result (error_message (fault_message w) e))"
  by (cases "processCommand_try w c") (simp add: processCommand_def)

lemma lit_command_neq_type: "lit ''command'' \<noteq> lit ''type''"
  by (simp add: lit_def)

lemma onMessage_process:
  "fst (processCommand w c) = Inr r \<Longrightarrow>
   onMessage w (JObj [(lit ''type'', JStr (lit ''PROCESS_COMMAND'')), (lit ''command'', c)])
     = Inr (Some r, snd (processCommand w c))"
  by (cases "processCommand w c") (simp add: onMessage_def bind_e_def lit_command_neq_type)

lemma processCommand_env_lofi:
  "fst (processCommand env_lofi (JStr c)) = Inr (success_result (lit ''lofi hip hop''))"
  by (simp add: processCommand_def processCommand_try_def prompt_JStr env_lofi_def api_reply_def
      ok_branch_def bind_e_def index_of_def dec.simps lit_def trim_def isWhiteSpace_def nl_def)

lemma processCommand_env_two_jazz:
  "fst (processCommand env_two (JStr (lit ''play jazz''))) = Inr (success_result (lit ''jazz music''))"
  by (simp add: processCommand_def processCommand_try_def prompt_JStr env_two_def api_reply_def
      ok_branch_def bind_e_def index_of_def dec.simps lit_def trim_def isWhiteSpace_def)

lemma processCommand_env_two_rock:
  "fst (processCommand env_two (JStr (lit ''play rock''))) = Inr (success_result (lit ''rock music''))"
  by (simp add: processCommand_def processCommand_try_def prompt_JStr env_two_def api_reply_def
      ok_branch_def bind_e_def index_of_def dec.simps lit_def trim_def isWhiteSpace_def
      build_request_def prompt_text_def)

lemma encodeURIComponent_examples:
  "encodeURIComponent (lit ''lofi hip hop'') = Inr (lit ''lofi%20hip%20hop'')"
  "encodeURIComponent (lit ''jazz music'') = Inr (lit ''jazz%20music'')"
  "encodeURIComponent (lit ''rock music'') = Inr (lit ''rock%20music'')"
  by (simp_all add: lit_def unescaped_def is_trail_def is_lead_def bind_e_def encode_cp_def
      utf8_def percent_def hexdigit_def)

lemma searchAndPlayYouTube_Inr:
  "bind_e (ToString q) encodeURIComponent = Inr enc \<Longrightarrow>
   searchAndPlayYouTube q s
     = Inr (s\<lparr> navigating_to := Some (search_url_prefix @ enc),
               play_timers := Suc (play_timers s) \<rparr>)"
  by (auto simp: searchAndPlayYouTube_def bind_e_def Let_def split: sum.splits)

lemma searchAndPlayYouTube_Inl:
  "bind_e (ToString q) encodeURIComponent = Inl e \<Longrightarrow> searchAndPlayYouTube q s = Inl e"
  by (auto simp: searchAndPlayYouTube_def bind_e_def split: sum.splits)

lemma catch_fields [simp]:
  "status_text (handleCommand_catch fm e s) = lit ''Error: '' @ error_message fm e"
  "navigating_to (handleCommand_catch fm e s) = navigating_to s"
  "play_timers (handleCommand_catch fm e s) = play_timers s"
  by (simp_all add: handleCommand_catch_def)

lemma resume_success:
  "encodeURIComponent q = Inr enc \<Longrightarrow> q \<noteq> [] \<Longrightarrow>
   handleCommand_resume fm (Inr (success_result q)) s
     = (updateStatus_str (searching_prefix @ q) (lit ''success'') s)
         \<lparr> navigating_to := Some (search_url_prefix @ enc), play_timers := Suc (play_timers s) \<rparr>"
  by (simp add: handleCommand_resume_def success_result_def lit_def Let_def updateStatus_def
      as_textContent_def searchAndPlayYouTube_def bind_e_def)

lemma resume_success_status:
  "status_text (handleCommand_resume fm (Inr (success_result q)) s)
     = (case encodeURIComponent q of
          Inr enc \<Rightarrow> searching_prefix @ q
        | Inl e \<Rightarrow> lit ''Error: '' @ error_message fm e)"
  by (cases "encodeURIComponent q")
     (auto simp: handleCommand_resume_def success_result_def lit_def Let_def updateStatus_def
        as_textContent_def searchAndPlayYouTube_def bind_e_def)

lemma resume_failure_status:
  "status_text (handleCommand_resume fm (Inr (failure_result m)) s) = lit ''Error: '' @ m"
  by (simp add: handleCommand_resume_def failure_result_def lit_def)

lemma resume_rejected_status:
  "status_text (handleCommand_resume fm (Inl e) s) = lit ''Error: '' @ error_message fm e"
  by (simp add: handleCommand_resume_def)

lemma get_prop_skips_action:
  "get_prop (JObj ((lit ''action'', v) # kvs)) (lit ''success'')
     = get_prop (JObj kvs) (lit ''success'')"
  "get_prop (JObj ((lit ''action'', v) # kvs)) (lit ''message'')
     = get_prop (JObj kvs) (lit ''message'')"
  "get_prop (JObj ((lit ''action'', v) # kvs)) (lit ''searchQuery'')
     = get_prop (JObj kvs) (lit ''searchQuery'')"
  "get_prop (JObj ((lit ''action'', v) # kvs)) (lit ''error'')
     = get_prop (JObj kvs) (lit ''error'')"
  by (simp_all add: lit_def)

lemma resume_no_action:
  "handleCommand_resume fm (Inr (JObj ((lit ''action'', v) # kvs))) s
     = handleCommand_resume fm (Inr (JObj kvs)) s"
  by (simp only: handleCommand_resume_def sum.case get_prop_skips_action)

lemma resume_dispatch:
  assumes "get_prop r (lit ''success'') = Inr ok" and "get_prop r (lit ''message'') = Inr m"
    and "get_prop r (lit ''searchQuery'') = Inr q"
  shows "play_timers (handleCommand_resume fm (Inr r) s)
      = (if truthy ok \<and> (\<exists>text. as_textContent m = Inr text) \<and> truthy q
            \<and> (\<exists>enc. bind_e (ToString q) encodeURIComponent = Inr enc)
         then Suc (play_timers s) else play_timers s)"
    and "navigating_to (handleCommand_resume fm (Inr r) s)
      = (case bind_e (ToString q) encodeURIComponent of
           Inr enc \<Rightarrow>
             if truthy ok \<and> (\<exists>text. as_textContent m = Inr text) \<and> truthy q
             then Some (search_url_prefix @ enc) else navigating_to s
         | Inl e \<Rightarrow> navigating_to s)"
proof -
  have e: "get_prop r (lit ''error'') \<noteq> Inl x" for x
    using assms(1) by (cases r) auto
  show "play_timers (handleCommand_resume fm (Inr r) s)
      = (if truthy ok \<and> (\<exists>text. as_textContent m = Inr text) \<and> truthy q
            \<and> (\<exists>enc. bind_e (ToString q) encodeURIComponent = Inr enc)
         then Suc (play_timers s) else play_timers s)"
  proof (cases "bind_e (ToString q) encodeURIComponent")
    case (Inl x)
    with assms searchAndPlayYouTube_Inl [OF Inl] show ?thesis
      by (auto simp: handleCommand_resume_def updateStatus_def bind_e_def
          split: sum.splits)
  next
    case (Inr enc)
    with assms searchAndPlayYouTube_Inr [OF Inr] show ?thesis
      by (auto simp: handleCommand_resume_def updateStatus_def bind_e_def
          split: sum.splits)
  qed
  show "navigating_to (handleCommand_resume fm (Inr r) s)
      = (case bind_e (ToString q) encodeURIComponent of
           Inr enc \<Rightarrow>
             if truthy ok \<and> (\<exists>text. as_textContent m = Inr text) \<and> truthy q
             then Some (search_url_prefix @ enc) else navigating_to s
         | Inl e \<Rightarrow> navigating_to s)"
  proof (cases "bind_e (ToString q) encodeURIComponent")
    case (Inl x)
    with assms searchAndPlayYouTube_Inl [OF Inl] show ?thesis
      by (auto simp: handleCommand_resume_def updateStatus_def bind_e_def
          split: sum.splits)
  next
    case (Inr enc)
    with assms searchAndPlayYouTube_Inr [OF Inr] show ?thesis
      by (auto simp: handleCommand_resume_def updateStatus_def bind_e_def
          split: sum.splits)
  qed
qed

lemma run_snoc: "run fm s (evs @ [ev]) = step fm (run fm s evs) ev"
  by (simp add: run_def)

lemma replicate_16: "replicate 16 x = [x, x, x, x, x, x, x, x, x, x, x, x, x, x, x, x]"
  by (simp add: numeral_eq_Suc)

lemma saveBtn_click_stored:
  "stored_apiKey (saveBtn_click out s)
     = (if out = None \<and> trim (apiKeyInput_value s) \<noteq> []
           \<and> prefix (lit ''sk-ant-'') (trim (apiKeyInput_value s))
        then JStr (trim (apiKeyInput_value s)) else stored_apiKey s)"
  by (simp add: saveBtn_click_def showStatus_def Let_def split: option.splits)

lemma saveBtn_click_rejects:
  "trim (apiKeyInput_value s) = [] \<or> \<not> prefix (lit ''sk-ant-'') (trim (apiKeyInput_value s)) \<Longrightarrow>
   popup_status_class (saveBtn_click out s) = lit ''status error''
   \<and> set_calls (saveBtn_click out s) = set_calls s"
  by (auto simp: saveBtn_click_def showStatus_def Let_def lit_def)

lemma popup_step_stored:
  "stored_apiKey (popup_step s ev) = stored_apiKey s
   \<or> (\<exists>k. stored_apiKey (popup_step s ev) = JStr k \<and> prefix (lit ''sk-ant-'') k)"
  by (cases ev)
     (auto simp: saveBtn_click_stored apiKeyInput_keypress_def mask_timer_fire_def
        class_timer_fire_def)

lemma popup_step_set_calls:
  "\<forall>v\<in>set (set_calls s). \<exists>k. v = JStr k \<and> prefix (lit ''sk-ant-'') k \<Longrightarrow>
   \<forall>v\<in>set (set_calls (popup_step s ev)). \<exists>k. v = JStr k \<and> prefix (lit ''sk-ant-'') k"
  by (cases ev)
     (auto simp: saveBtn_click_def showStatus_def Let_def apiKeyInput_keypress_def
        mask_timer_fire_def class_timer_fire_def split: option.splits)

lemma popup_run_snoc: "popup_run s (evs @ [ev]) = popup_step (popup_run s evs) ev"
  by (simp add: popup_run_def)

lemma popup_run_stored:
  "stored_apiKey (popup_run s evs) = stored_apiKey s
   \<or> (\<exists>k. stored_apiKey (popup_run s evs) = JStr k \<and> prefix (lit ''sk-ant-'') k)"
proof (induction evs rule: rev_induct)
  case Nil
  then show ?case by (simp add: popup_run_def)
next
  case (snoc ev evs)
  with popup_step_stored [of "popup_run s evs" ev] show ?case
    by (auto simp: popup_run_snoc)
qed

lemma popup_run_set_calls:
  "\<forall>v\<in>set (set_calls s). \<exists>k. v = JStr k \<and> prefix (lit ''sk-ant-'') k \<Longrightarrow>
   \<forall>v\<in>set (set_calls (popup_run s evs)). \<exists>k. v = JStr k \<and> prefix (lit ''sk-ant-'') k"
proof (induction evs rule: rev_induct)
  case Nil
  then show ?case by (simp add: popup_run_def)
next
  case (snoc ev evs)
  with popup_step_set_calls [of "popup_run s evs" ev] show ?case
    by (simp add: popup_run_snoc)
qed

lemma record_all_snoc: "record_all c (es @ [e]) = record_entry (record_all c es) e"
  by (simp add: record_all_def)

lemma capacity_record_all [simp]: "capacity (record_all c es) = capacity c"
  by (induction es rule: rev_induct) (simp_all add: record_all_def record_entry_def Let_def)

lemma capacity_empty_context: "capacity (empty_context cap) = cap"
  by (simp add: empty_context_def)

lemma entries_record_all:
  "entries (record_all (empty_context cap) es) = drop (length es - cap) es"
proof (induction es rule: rev_induct)
  case Nil
  then show ?case by (simp add: record_all_def empty_context_def)
next
  case (snoc e es)
  show ?case
  proof (cases "length es < cap")
    case True
    then show ?thesis
      by (simp add: record_all_snoc record_entry_def Let_def snoc capacity_empty_context)
  next
    case False
    then show ?thesis
      by (simp add: record_all_snoc record_entry_def Let_def snoc capacity_empty_context
          Suc_diff_le)
  qed
qed

lemma recent_record_all:
  "recent k (record_all (empty_context cap) es) = drop (length es - min k cap) es"
proof -
  have "length es - (length es - cap + k) + (length es - cap) = length es - min k cap"
    by arith
  then show ?thesis
    by (simp add: recent_def entries_record_all)
qed

section \<open>Claims about the background script\<close>

text \<open>
  Claim C8. When no API key is present in storage (the stored value is undefined, or any
  other falsy value), \<open>processCommand\<close> returns the result with success false and the message
  that tells the user to configure the key, and passes no request to \<open>fetch\<close>.
\<close>

theorem processCommand_without_api_key:
  "storage_get w = Inr k \<Longrightarrow> \<not> truthy k \<Longrightarrow>
     processCommand w command = (Inr (failure_result no_key_message), [])"
  by (simp add: processCommand_def processCommand_try_def)

text \<open>
  Claim C8, at the environment with nothing stored and the command \<open>play jazz\<close>.
\<close>

theorem processCommand_without_api_key_witness:
  "storage_get env_no_key = Inr Undefined \<and> \<not> truthy Undefined
   \<and> processCommand env_no_key (JStr (lit ''play jazz''))
       = (Inr (JObj [(lit ''success'', JBool False),
                     (lit ''error'',
                      JStr (lit ''API key not set. Click the extension icon to configure.''))]),
          [])"
  using processCommand_without_api_key [of env_no_key Undefined "JStr (lit ''play jazz'')"]
  by (simp add: env_no_key_def failure_result_def no_key_message_def)

text \<open>
  Claim C10. When the model call succeeds (a key is stored, the prompt for the command is
  built and sent, the response is ok and its body has a string at \<open>content[0].text\<close>), the
  result of \<open>processCommand\<close> has success true, its searchQuery is that text trimmed, and its
  message contains the searchQuery.
\<close>

theorem processCommand_success_result:
  assumes "storage_get w = Inr k" and "truthy k"
    and "prompt command = Inr content"
    and "fetch w (build_request k content) = Response True (Inr data)"
    and "get_prop data (lit ''content'') = Inr c"
    and "get_prop c (lit ''0'') = Inr x"
    and "get_prop x (lit ''text'') = Inr (JStr t)"
  shows "\<exists>r m. fst (processCommand w command) = Inr r
           \<and> get_prop r (lit ''success'') = Inr (JBool True)
           \<and> get_prop r (lit ''searchQuery'') = Inr (JStr (trim t))
           \<and> get_prop r (lit ''message'') = Inr (JStr m)
           \<and> sublist (trim t) m"
proof -
  have "fst (processCommand w command) = Inr (success_result (trim t))"
    using assms by (simp add: processCommand_def processCommand_try_def ok_branch_def bind_e_def)
  moreover have "get_prop (success_result (trim t)) (lit ''success'') = Inr (JBool True)"
    by (simp add: success_result_def)
  moreover have "get_prop (success_result (trim t)) (lit ''searchQuery'') = Inr (JStr (trim t))"
    by (simp add: success_result_def lit_def)
  moreover have "get_prop (success_result (trim t)) (lit ''message'')
                   = Inr (JStr (searching_prefix @ trim t))"
    by (simp add: success_result_def lit_def)
  moreover have "sublist (trim t) (searching_prefix @ trim t)"
    by simp
  ultimately show ?thesis by blast
qed

text \<open>
  Claim C10, at a model that answers \<open>" lofi hip hop\n"\<close>.
\<close>

theorem processCommand_success_result_witness:
  "storage_get env_lofi = Inr (JStr (lit ''sk-ant-test'')) \<and> truthy (JStr (lit ''sk-ant-test''))
   \<and> prompt (JStr (lit ''play lofi hip hop'')) = Inr (prompt_text (lit ''play lofi hip hop''))
   \<and> (\<exists>r m. fst (processCommand env_lofi (JStr (lit ''play lofi hip hop''))) = Inr r
           \<and> get_prop r (lit ''success'') = Inr (JBool True)
           \<and> get_prop r (lit ''searchQuery'') = Inr (JStr (lit ''lofi hip hop''))
           \<and> get_prop r (lit ''message'') = Inr (JStr m)
           \<and> sublist (lit ''lofi hip hop'') m)"
proof -
  let ?x = "JObj [(lit ''type'', JStr (lit ''text'')),
                  (lit ''text'', JStr (lit '' lofi hip hop'' @ nl))]"
  let ?data = "JObj [(lit ''content'', JArr [?x])]"
  have h1: "storage_get env_lofi = Inr (JStr (lit ''sk-ant-test''))"
    by (simp add: env_lofi_def)
  have h2: "truthy (JStr (lit ''sk-ant-test''))"
    by (simp add: lit_def)
  have h3: "fetch env_lofi (build_request (JStr (lit ''sk-ant-test''))
              (prompt_text (lit ''play lofi hip hop''))) = Response True (Inr ?data)"
    by (simp add: env_lofi_def api_reply_def)
  have h4: "get_prop ?data (lit ''content'') = Inr (JArr [?x])"
    by simp
  have h5: "get_prop (JArr [?x]) (lit ''0'') = Inr ?x"
    by (simp add: index_of_def dec.simps lit_def)
  have h6: "get_prop ?x (lit ''text'') = Inr (JStr (lit '' lofi hip hop'' @ nl))"
    by (simp add: lit_def)
  have t: "trim (lit '' lofi hip hop'' @ nl) = lit ''lofi hip hop''"
    by (simp add: trim_def lit_def nl_def isWhiteSpace_def)
  from processCommand_success_result [OF h1 h2 prompt_JStr h3 h4 h5 h6] h1 h2 t prompt_JStr
  show ?thesis by simp
qed

text \<open>
  Claim C2, as stated, fails: with the network down, the error is caught and converted into
  the object \<open>{success: false, error: "Failed to fetch"}\<close>, which has one property besides
  \<open>success\<close> (the message) and no error kind.
\<close>

theorem failure_result_has_no_error_kind:
  "fst (processCommand env_offline (JStr (lit ''play jazz'')))
     = Inr (JObj [(lit ''success'', JBool False), (lit ''error'', JStr (lit ''Failed to fetch''))])
   \<and> \<not> spec_failure_shape
          (JObj [(lit ''success'', JBool False), (lit ''error'', JStr (lit ''Failed to fetch''))])"
  by (simp add: processCommand_def processCommand_try_def prompt_JStr env_offline_def
      spec_failure_shape_def failure_result_def lit_def)

text \<open>
  Claim C2, amended. For every command and every outcome of the storage and network calls,
  the promise of \<open>processCommand\<close> is fulfilled, never rejected; its value is either a success
  result or an object with success false and the error's message under \<open>error\<close> (and no error
  kind); every error raised inside the \<open>try\<close> block becomes such an object with that error's
  message; and the listener passes exactly this value to \<open>sendResponse\<close>.
\<close>

theorem processCommand_errors_become_results:
  "\<exists>r. fst (processCommand w c) = Inr r
     \<and> ((\<exists>q. r = success_result q) \<or> (\<exists>m. r = failure_result m))
     \<and> (\<forall>e. fst (processCommand_try w c) = Inl e
            \<longrightarrow> r = failure_result (error_message (fault_message w) e))
     \<and> onMessage w (JObj [(lit ''type'', JStr (lit ''PROCESS_COMMAND'')), (lit ''command'', c)])
         = Inr (Some r, snd (processCommand w c))"
proof -
  from processCommand_shape [of w c] obtain r where
    r: "fst (processCommand w c) = Inr r"
       "(\<exists>q. r = success_result q) \<or> (\<exists>m. r = failure_result m)"
    by blast
  have "\<forall>e. fst (processCommand_try w c) = Inl e
            \<longrightarrow> r = failure_result (error_message (fault_message w) e)"
    using processCommand_caught [of w c] r(1) by auto
  with r onMessage_process [OF r(1)] show ?thesis by blast
qed

text \<open>
  Claim C2, amended, with the network down.
\<close>

theorem processCommand_errors_become_results_witness:
  "fst (processCommand_try env_offline (JStr (lit ''play jazz'')))
     = Inl (Error (lit ''Failed to fetch''))
   \<and> fst (processCommand env_offline (JStr (lit ''play jazz'')))
       = Inr (failure_result (lit ''Failed to fetch''))"
proof -
  have t: "fst (processCommand_try env_offline (JStr (lit ''play jazz'')))
             = Inl (Error (lit ''Failed to fetch''))"
    by (simp add: processCommand_try_def prompt_JStr env_offline_def lit_def)
  from processCommand_errors_become_results [of env_offline "JStr (lit ''play jazz'')"] t
  show ?thesis by auto
qed

text \<open>
  Claim C4, as stated, fails: when the model's response does not parse, \<open>processCommand\<close> has
  made one request in all, so no repair attempt (re-prompt), and returns the failure.
\<close>

theorem unparseable_response_is_not_repaired:
  "spec_repair_attempts (snd (processCommand env_unparseable (JStr (lit ''play jazz'')))) = 0
   \<and> length (snd (processCommand env_unparseable (JStr (lit ''play jazz'')))) = 1
   \<and> fst (processCommand env_unparseable (JStr (lit ''play jazz'')))
       = Inr (failure_result (lit ''Unexpected token < in JSON''))"
  by (simp add: processCommand_def processCommand_try_def prompt_JStr env_unparseable_def
      ok_branch_def bind_e_def spec_repair_attempts_def lit_def)

text \<open>
  Claim C4, amended. \<open>processCommand\<close> makes at most one request to the model per command,
  and exactly one, built from the key and the prompt, when a key is stored and the prompt can
  be built. When the response to it is ok but cannot be parsed (\<open>response.json()\<close> rejects or
  \<open>data.content[0].text.trim()\<close> throws), \<open>processCommand\<close> returns the failure result with
  that error's message, having made that one request only: no repair attempt and no retry.
\<close>

theorem processCommand_at_most_one_request:
  "length (snd (processCommand w c)) \<le> 1
   \<and> (\<forall>k content. storage_get w = Inr k \<and> truthy k \<and> prompt c = Inr content
          \<longrightarrow> snd (processCommand w c) = [build_request k content])
   \<and> (\<forall>k content js e.
          storage_get w = Inr k \<and> truthy k \<and> prompt c = Inr content
          \<and> fetch w (build_request k content) = Response True js \<and> ok_branch js = Inl e
          \<longrightarrow> processCommand w c
                = (Inr (failure_result (error_message (fault_message w) e)),
                   [build_request k content]))"
proof -
  have "length (snd (processCommand w c)) \<le> 1"
    unfolding processCommand_log
    by (auto simp: processCommand_try_def Let_def split: sum.splits fetch_outcome.splits)
  moreover have "\<forall>k content. storage_get w = Inr k \<and> truthy k \<and> prompt c = Inr content
          \<longrightarrow> snd (processCommand w c) = [build_request k content]"
    unfolding processCommand_log
    by (auto simp: processCommand_try_def Let_def split: sum.splits fetch_outcome.splits)
  moreover have "\<forall>k content js e.
          storage_get w = Inr k \<and> truthy k \<and> prompt c = Inr content
          \<and> fetch w (build_request k content) = Response True js \<and> ok_branch js = Inl e
          \<longrightarrow> processCommand w c
                = (Inr (failure_result (error_message (fault_message w) e)),
                   [build_request k content])"
    by (auto simp: processCommand_def processCommand_try_def Let_def)
  ultimately show ?thesis by blast
qed

text \<open>
  Claim C4, amended, at a response that does not parse.
\<close>

theorem processCommand_at_most_one_request_witness:
  "storage_get env_unparseable = Inr (JStr (lit ''sk-ant-test''))
   \<and> truthy (JStr (lit ''sk-ant-test''))
   \<and> prompt (JStr (lit ''play jazz'')) = Inr (prompt_text (lit ''play jazz''))
   \<and> fetch env_unparseable
        (build_request (JStr (lit ''sk-ant-test'')) (prompt_text (lit ''play jazz'')))
       = Response True (Inl (Error (lit ''Unexpected token < in JSON'')))
   \<and> ok_branch (Inl (Error (lit ''Unexpected token < in JSON'')))
       = Inl (Error (lit ''Unexpected token < in JSON''))
   \<and> processCommand env_unparseable (JStr (lit ''play jazz''))
       = (Inr (failure_result (lit ''Unexpected token < in JSON'')),
          [build_request (JStr (lit ''sk-ant-test'')) (prompt_text (lit ''play jazz''))])"
proof -
  have h: "storage_get env_unparseable = Inr (JStr (lit ''sk-ant-test''))
             \<and> truthy (JStr (lit ''sk-ant-test''))
             \<and> prompt (JStr (lit ''play jazz'')) = Inr (prompt_text (lit ''play jazz''))
             \<and> fetch env_unparseable
                  (build_request (JStr (lit ''sk-ant-test'')) (prompt_text (lit ''play jazz'')))
                 = Response True (Inl (Error (lit ''Unexpected token < in JSON'')))
             \<and> ok_branch (Inl (Error (lit ''Unexpected token < in JSON'')))
                 = Inl (Error (lit ''Unexpected token < in JSON''))"
    by (simp add: env_unparseable_def lit_def prompt_JStr ok_branch_def bind_e_def)
  have f: "fault_message env_unparseable = example_fault_message"
    by (simp add: env_unparseable_def)
  from processCommand_at_most_one_request [of env_unparseable "JStr (lit ''play jazz'')"] h
  have "processCommand env_unparseable (JStr (lit ''play jazz''))
       = (Inr (failure_result (error_message (fault_message env_unparseable)
                  (Error (lit ''Unexpected token < in JSON'')))),
          [build_request (JStr (lit ''sk-ant-test'')) (prompt_text (lit ''play jazz''))])"
    by blast
  with h show ?thesis by simp
qed

section \<open>Claims about the content script\<close>

text \<open>
  Claim C1, as stated, fails: for the command \<open>play lofi hip hop\<close> the result of extraction
  is \<open>{success, message, searchQuery}\<close>; it has no action in the closed Action set, and the
  front end executes it all the same: it starts the navigation to the search and sets the play
  timer.
\<close>

theorem result_without_action_is_dispatched:
  "fst (processCommand env_lofi (JStr (lit ''play lofi hip hop'')))
     = Inr (success_result (lit ''lofi hip hop''))
   \<and> \<not> spec_action_in_closed_set (success_result (lit ''lofi hip hop''))
   \<and> navigating_to (handleCommand_resume example_fault_message
              (Inr (success_result (lit ''lofi hip hop''))) page0)
       = Some (lit ''https://www.youtube.com/results?search_query=lofi%20hip%20hop'')
   \<and> play_timers (handleCommand_resume example_fault_message
                     (Inr (success_result (lit ''lofi hip hop''))) page0) = 1"
proof -
  have n: "lit ''lofi hip hop'' \<noteq> []" by (simp add: lit_def)
  have "\<not> spec_action_in_closed_set (success_result (lit ''lofi hip hop''))"
    by (simp add: spec_action_in_closed_set_def success_result_def lit_def)
  moreover
  have "navigating_to (handleCommand_resume example_fault_message
                (Inr (success_result (lit ''lofi hip hop''))) page0)
          = Some (lit ''https://www.youtube.com/results?search_query=lofi%20hip%20hop'')
        \<and> play_timers (handleCommand_resume example_fault_message
                          (Inr (success_result (lit ''lofi hip hop''))) page0) = 1"
    by (simp only: resume_success [OF encodeURIComponent_examples(1) n])
       (simp add: search_url_prefix_def lit_def page0_def)
  ultimately show ?thesis
    using processCommand_env_lofi by simp
qed

text \<open>
  Claim C1, amended. The extension has one operation, search-and-play, and no Action set.
  The result of \<open>processCommand\<close> never has an \<open>action\<close>. For every response with
  properties \<open>success\<close>, \<open>message\<close> and \<open>searchQuery\<close>, \<open>handleCommand\<close> starts the
  search for \<open>searchQuery\<close> (navigation to the results page, play timer) exactly when
  \<open>success\<close> is truthy, \<open>message\<close> can be displayed, \<open>searchQuery\<close> is truthy and can be
  converted to a string and URI-encoded; otherwise it starts nothing, nor does it for a
  response that is null or undefined or when \<open>sendMessage\<close> rejects. An \<open>action\<close> property
  of the response is never consulted, so nothing is rejected for its action.
\<close>

theorem handleCommand_dispatch_ignores_action:
  assumes "get_prop r (lit ''success'') = Inr ok" and "get_prop r (lit ''message'') = Inr m"
    and "get_prop r (lit ''searchQuery'') = Inr q"
  shows "(\<exists>r'. fst (processCommand w c) = Inr r' \<and> get_prop r' (lit ''action'') = Inr Undefined)
       \<and> play_timers (handleCommand_resume fm (Inr r) s)
           = (if truthy ok \<and> (\<exists>text. as_textContent m = Inr text) \<and> truthy q
                 \<and> (\<exists>enc. bind_e (ToString q) encodeURIComponent = Inr enc)
              then Suc (play_timers s) else play_timers s)
       \<and> navigating_to (handleCommand_resume fm (Inr r) s)
           = (case bind_e (ToString q) encodeURIComponent of
                Inr enc \<Rightarrow>
                  if truthy ok \<and> (\<exists>text. as_textContent m = Inr text) \<and> truthy q
                  then Some (search_url_prefix @ enc) else navigating_to s
              | Inl e \<Rightarrow> navigating_to s)
       \<and> handleCommand_resume fm (Inr (JObj ((lit ''action'', v) # kvs))) s'
           = handleCommand_resume fm (Inr (JObj kvs)) s'
       \<and> play_timers (handleCommand_resume fm (Inr Undefined) s) = play_timers s
       \<and> navigating_to (handleCommand_resume fm (Inr Undefined) s) = navigating_to s
       \<and> play_timers (handleCommand_resume fm (Inr JNull) s) = play_timers s
       \<and> navigating_to (handleCommand_resume fm (Inr JNull) s) = navigating_to s
       \<and> play_timers (handleCommand_resume fm (Inl e) s) = play_timers s
       \<and> navigating_to (handleCommand_resume fm (Inl e) s) = navigating_to s"
proof -
  have unchanged:
    "play_timers (handleCommand_resume fm (Inr Undefined) s) = play_timers s"
    "navigating_to (handleCommand_resume fm (Inr Undefined) s) = navigating_to s"
    "play_timers (handleCommand_resume fm (Inr JNull) s) = play_timers s"
    "navigating_to (handleCommand_resume fm (Inr JNull) s) = navigating_to s"
    "play_timers (handleCommand_resume fm (Inl e) s) = play_timers s"
    "navigating_to (handleCommand_resume fm (Inl e) s) = navigating_to s"
    by (simp_all add: handleCommand_resume_def)
  from processCommand_shape [of w c] obtain r' where
    r': "fst (processCommand w c) = Inr r'"
        "(\<exists>q. r' = success_result q) \<or> (\<exists>m. r' = failure_result m)"
    by blast
  from r'(2) have "get_prop r' (lit ''action'') = Inr Undefined"
    by (auto simp: success_result_def failure_result_def lit_def)
  with r'(1) resume_dispatch [OF assms, of fm s] resume_no_action [of fm v kvs s'] unchanged
  show ?thesis by blast
qed

text \<open>
  Claim C1, amended, at the result for \<open>lofi hip hop\<close>, and at a response with an action
  the Action set does not have.
\<close>

theorem handleCommand_dispatch_ignores_action_witness:
  "get_prop (success_result (lit ''lofi hip hop'')) (lit ''success'') = Inr (JBool True)
   \<and> get_prop (success_result (lit ''lofi hip hop'')) (lit ''message'')
       = Inr (JStr (searching_prefix @ lit ''lofi hip hop''))
   \<and> get_prop (success_result (lit ''lofi hip hop'')) (lit ''searchQuery'')
       = Inr (JStr (lit ''lofi hip hop''))
   \<and> play_timers (handleCommand_resume example_fault_message
                     (Inr (success_result (lit ''lofi hip hop''))) page0) = 1
   \<and> navigating_to (handleCommand_resume example_fault_message
                     (Inr (success_result (lit ''lofi hip hop''))) page0)
       = Some (search_url_prefix @ lit ''lofi%20hip%20hop'')
   \<and> handleCommand_resume example_fault_message
        (Inr (JObj [(lit ''action'', JStr (lit ''self-destruct'')),
                    (lit ''success'', JBool True),
                    (lit ''searchQuery'', JStr (lit ''lofi hip hop''))])) page0
       = handleCommand_resume example_fault_message
           (Inr (JObj [(lit ''success'', JBool True),
                       (lit ''searchQuery'', JStr (lit ''lofi hip hop''))])) page0"
proof -
  have h1: "get_prop (success_result (lit ''lofi hip hop'')) (lit ''success'') = Inr (JBool True)"
    by (simp add: success_result_def)
  have h2: "get_prop (success_result (lit ''lofi hip hop'')) (lit ''message'')
              = Inr (JStr (searching_prefix @ lit ''lofi hip hop''))"
    by (simp add: success_result_def lit_def)
  have h3: "get_prop (success_result (lit ''lofi hip hop'')) (lit ''searchQuery'')
              = Inr (JStr (lit ''lofi hip hop''))"
    by (simp add: success_result_def lit_def)
  have n: "truthy (JStr (lit ''lofi hip hop''))" by (simp add: lit_def)
  have t: "as_textContent (JStr (searching_prefix @ lit ''lofi hip hop''))
             = Inr (searching_prefix @ lit ''lofi hip hop'')"
    by (simp add: as_textContent_def)
  have e: "bind_e (ToString (JStr (lit ''lofi hip hop''))) encodeURIComponent
             = Inr (lit ''lofi%20hip%20hop'')"
    by (simp add: bind_e_def encodeURIComponent_examples(1))
  have p: "play_timers page0 = 0" by (simp add: page0_def)
  from handleCommand_dispatch_ignores_action [OF h1 h2 h3, of env_lofi Undefined
      example_fault_message page0 "JStr (lit ''self-destruct'')"
      "[(lit ''success'', JBool True), (lit ''searchQuery'', JStr (lit ''lofi hip hop''))]" page0]
    h1 h2 h3 n t e p
  show ?thesis by simp
qed

text \<open>
  Claim C3, as stated, fails: \<open>processCommand\<close> called on the empty command with a key stored
  does not fail with an EmptyInputError; it sends the request to the model and returns a
  success result. In the front end, Send on the empty input reports no error either: the
  status stays at its idle text.
\<close>

theorem processCommand_empty_command_calls_model:
  "snd (processCommand env_lofi (JStr []))
     = [build_request (JStr (lit ''sk-ant-test'')) (prompt_text [])]
   \<and> fst (processCommand env_lofi (JStr [])) = Inr (success_result (lit ''lofi hip hop''))
   \<and> status_text (sendBtn_click page0) = lit ''Ready - Type a command!''
   \<and> status_class (sendBtn_click page0) = lit ''yt-ai-status''"
proof -
  have "snd (processCommand env_lofi (JStr []))
          = [build_request (JStr (lit ''sk-ant-test'')) (prompt_text [])]"
    by (simp add: processCommand_log processCommand_try_def prompt_JStr env_lofi_def
        api_reply_def lit_def)
  moreover have "sendBtn_click page0 = page0"
    by (simp add: sendBtn_click_def page0_def trim_def)
  ultimately show ?thesis
    using processCommand_env_lofi by (simp add: page0_def)
qed

text \<open>
  Claim C3, amended. An input that is empty after trimming is dropped by the front end:
  the Send button and the Enter key leave the page as it is, so \<open>handleCommand\<close> is not called,
  no message is sent to the background script (hence no request to the model) and no error is
  displayed. \<open>processCommand\<close> itself has no check for an empty command.
\<close>

theorem empty_input_is_ignored:
  "trim (input_value s) = [] \<Longrightarrow> sendBtn_click s = s \<and> input_keypress key s = s"
  by (simp add: sendBtn_click_def input_keypress_def)

text \<open>
  Claim C3, amended, at an input of three spaces.
\<close>

theorem empty_input_is_ignored_witness:
  "trim (input_value (page0\<lparr> input_value := lit ''   '' \<rparr>)) = []
   \<and> sendBtn_click (page0\<lparr> input_value := lit ''   '' \<rparr>) = page0\<lparr> input_value := lit ''   '' \<rparr>
   \<and> input_keypress (lit ''Enter'') (page0\<lparr> input_value := lit ''   '' \<rparr>)
       = page0\<lparr> input_value := lit ''   '' \<rparr>
   \<and> outbox (sendBtn_click (page0\<lparr> input_value := lit ''   '' \<rparr>)) = []"
proof -
  have h: "trim (input_value (page0\<lparr> input_value := lit ''   '' \<rparr>)) = []"
    by (simp add: trim_def lit_def isWhiteSpace_def)
  have o: "outbox (page0\<lparr> input_value := lit ''   '' \<rparr>) = []"
    by (simp add: page0_def)
  from empty_input_is_ignored [OF h, of "lit ''Enter''"] h o show ?thesis by simp
qed

text \<open>
  Claim C5 says what the source's comment (\<open>Wait for search results and play first video\<close>)
  and the README say; the code does not do it. On a results page for \<open>jazz\<close> the command
  \<open>play lofi hip hop\<close> starts the navigation to the search for \<open>lofi hip hop\<close> and sets
  the timer in the document that is still the old one. If the timer fires before the new page
  has loaded, the first result of the old page, \<open>Jazz Classics\<close>, is clicked. If the new
  page loads first, the timer is gone with the old document and nothing is clicked at all. In
  neither order is \<open>Lofi Girl\<close>, the first result of the search, played.
\<close>

theorem search_does_not_play_its_first_result:
  "fst (processCommand env_lofi (JStr (lit ''play lofi hip hop'')))
     = Inr (success_result (lit ''lofi hip hop''))
   \<and> navigating_to (run example_fault_message page_jazz
        [Settled (Inr (success_result (lit ''lofi hip hop'')))])
       = Some (lit ''https://www.youtube.com/results?search_query=lofi%20hip%20hop'')
   \<and> document_matches (run example_fault_message page_jazz
        [Settled (Inr (success_result (lit ''lofi hip hop'')))])
       = [Element 1 (lit ''Jazz Classics''), Element 2 (lit ''Smooth Jazz'')]
   \<and> clicked (run example_fault_message page_jazz
        [Settled (Inr (success_result (lit ''lofi hip hop''))), PlayTimer])
       = [Element 1 (lit ''Jazz Classics'')]
   \<and> play_timers (run example_fault_message page_jazz
        [Settled (Inr (success_result (lit ''lofi hip hop''))), Loaded lofi_results]) = 0
   \<and> clicked (run example_fault_message page_jazz
        [Settled (Inr (success_result (lit ''lofi hip hop''))), Loaded lofi_results, PlayTimer])
       = []
   \<and> clicked (run example_fault_message page_jazz
        [Settled (Inr (success_result (lit ''lofi hip hop''))), PlayTimer, Loaded lofi_results,
         PlayTimer])
       = [Element 1 (lit ''Jazz Classics'')]"
proof -
  have n: "lit ''lofi hip hop'' \<noteq> []" by (simp add: lit_def)
  note r = resume_success [OF encodeURIComponent_examples(1) n]
  have u: "search_url_prefix @ lit ''lofi%20hip%20hop''
             = lit ''https://www.youtube.com/results?search_query=lofi%20hip%20hop''"
    by (simp add: search_url_prefix_def lit_def)
  have "navigating_to (run example_fault_message page_jazz
        [Settled (Inr (success_result (lit ''lofi hip hop'')))])
       = Some (lit ''https://www.youtube.com/results?search_query=lofi%20hip%20hop'')"
    by (simp add: run_def r u)
  moreover have "document_matches (run example_fault_message page_jazz
        [Settled (Inr (success_result (lit ''lofi hip hop'')))])
       = [Element 1 (lit ''Jazz Classics''), Element 2 (lit ''Smooth Jazz'')]"
    by (simp add: run_def r page_jazz_def)
  moreover have "clicked (run example_fault_message page_jazz
        [Settled (Inr (success_result (lit ''lofi hip hop''))), PlayTimer])
       = [Element 1 (lit ''Jazz Classics'')]"
    by (simp add: run_def r play_timer_fire_def page_jazz_def page0_def)
  moreover have "play_timers (run example_fault_message page_jazz
        [Settled (Inr (success_result (lit ''lofi hip hop''))), Loaded lofi_results]) = 0"
    by (simp add: run_def r page_loaded_def)
  moreover have "clicked (run example_fault_message page_jazz
        [Settled (Inr (success_result (lit ''lofi hip hop''))), Loaded lofi_results, PlayTimer])
       = []"
    by (simp add: run_def r page_loaded_def page_jazz_def page0_def)
  moreover have "clicked (run example_fault_message page_jazz
        [Settled (Inr (success_result (lit ''lofi hip hop''))), PlayTimer, Loaded lofi_results,
         PlayTimer])
       = [Element 1 (lit ''Jazz Classics'')]"
    by (simp add: run_def r play_timer_fire_def page_loaded_def page_jazz_def page0_def)
  ultimately show ?thesis
    using processCommand_env_lofi by simp
qed

text \<open>
  Claim C7, as stated, fails: the user issues \<open>play jazz\<close> and then \<open>play rock\<close>; the
  response for \<open>play rock\<close> arrives first and is displayed, and the one for \<open>play jazz\<close>
  arrives after it. The stale result is not discarded: it overwrites the status of the newer
  command, which ends up showing the search for jazz.
\<close>

theorem stale_result_overwrites_status:
  "outbox (run example_fault_message page0
      [Typed (lit ''play jazz''), SendClick, Typed (lit ''play rock''), SendClick])
     = [JObj [(lit ''type'', JStr (lit ''PROCESS_COMMAND'')),
              (lit ''command'', JStr (lit ''play jazz''))],
        JObj [(lit ''type'', JStr (lit ''PROCESS_COMMAND'')),
              (lit ''command'', JStr (lit ''play rock''))]]
   \<and> fst (processCommand env_two (JStr (lit ''play rock'')))
       = Inr (success_result (lit ''rock music''))
   \<and> status_text (run example_fault_message page0
      [Typed (lit ''play jazz''), SendClick, Typed (lit ''play rock''), SendClick,
       Settled (fst (processCommand env_two (JStr (lit ''play rock''))))])
     = searching_prefix @ lit ''rock music''
   \<and> status_text (run example_fault_message page0
      [Typed (lit ''play jazz''), SendClick, Typed (lit ''play rock''), SendClick,
       Settled (fst (processCommand env_two (JStr (lit ''play rock'')))),
       Settled (fst (processCommand env_two (JStr (lit ''play jazz''))))])
     = searching_prefix @ lit ''jazz music''"
proof -
  have t: "trim (lit ''play jazz'') = lit ''play jazz''"
      "trim (lit ''play rock'') = lit ''play rock''"
    by (simp_all add: trim_def lit_def isWhiteSpace_def)
  have n: "lit ''play jazz'' \<noteq> []" "lit ''play rock'' \<noteq> []"
    by (simp_all add: lit_def)
  have "outbox (run example_fault_message page0
      [Typed (lit ''play jazz''), SendClick, Typed (lit ''play rock''), SendClick])
     = [JObj [(lit ''type'', JStr (lit ''PROCESS_COMMAND'')),
              (lit ''command'', JStr (lit ''play jazz''))],
        JObj [(lit ''type'', JStr (lit ''PROCESS_COMMAND'')),
              (lit ''command'', JStr (lit ''play rock''))]]"
    by (simp add: run_def sendBtn_click_def handleCommand_begin_def t n page0_def Let_def)
  moreover have "status_text (run example_fault_message page0
      [Typed (lit ''play jazz''), SendClick, Typed (lit ''play rock''), SendClick,
       Settled (fst (processCommand env_two (JStr (lit ''play rock'')))),
       Settled (fst (processCommand env_two (JStr (lit ''play jazz''))))])
     = searching_prefix @ lit ''jazz music''"
    by (simp add: run_def processCommand_env_two_jazz resume_success_status
        encodeURIComponent_examples(2))
  moreover have "status_text (run example_fault_message page0
      [Typed (lit ''play jazz''), SendClick, Typed (lit ''play rock''), SendClick,
       Settled (fst (processCommand env_two (JStr (lit ''play rock''))))])
     = searching_prefix @ lit ''rock music''"
    by (simp add: run_def processCommand_env_two_rock resume_success_status
        encodeURIComponent_examples(3))
  ultimately show ?thesis
    using processCommand_env_two_rock by simp
qed

text \<open>
  Claim C7, amended. No utterance id exists: every result of \<open>processCommand\<close> is an object
  \<open>{success: true, message, searchQuery}\<close> or \<open>{success: false, error}\<close>, and the message
  that \<open>handleCommand\<close> sends holds the type and the command only. The front end renders
  every response when it arrives, whatever was issued, received or displayed before: after a
  success result the status shows its message (or the error, should the query not be
  URI-encodable), after a failure result \<open>Error: \<close> and its error, after a rejected
  \<open>sendMessage\<close> \<open>Error: \<close> and the rejection's message. So the status shows the last
  response to arrive, also when it answers an older command.
\<close>

theorem status_shows_last_arrived_response:
  "(\<exists>r. fst (processCommand w c) = Inr r
        \<and> ((\<exists>q. r = JObj [(lit ''success'', JBool True),
                           (lit ''message'', JStr (searching_prefix @ q)),
                           (lit ''searchQuery'', JStr q)])
           \<or> (\<exists>m. r = JObj [(lit ''success'', JBool False), (lit ''error'', JStr m)])))
   \<and> outbox (handleCommand_begin command s)
       = outbox s @ [JObj [(lit ''type'', JStr (lit ''PROCESS_COMMAND'')),
                           (lit ''command'', command)]]
   \<and> status_text (run fm s (evs @ [Settled (Inr (JObj [(lit ''success'', JBool True),
                           (lit ''message'', JStr (searching_prefix @ q)),
                           (lit ''searchQuery'', JStr q)]))]))
       = (case encodeURIComponent q of
            Inr enc \<Rightarrow> searching_prefix @ q
          | Inl e \<Rightarrow> lit ''Error: '' @ error_message fm e)
   \<and> status_text (run fm s (evs @ [Settled (Inr (JObj [(lit ''success'', JBool False),
                           (lit ''error'', JStr m)]))]))
       = lit ''Error: '' @ m
   \<and> status_text (run fm s (evs @ [Settled (Inl e)])) = lit ''Error: '' @ error_message fm e"
proof -
  have "\<exists>r. fst (processCommand w c) = Inr r
        \<and> ((\<exists>q. r = JObj [(lit ''success'', JBool True),
                           (lit ''message'', JStr (searching_prefix @ q)),
                           (lit ''searchQuery'', JStr q)])
           \<or> (\<exists>m. r = JObj [(lit ''success'', JBool False), (lit ''error'', JStr m)]))"
    using processCommand_shape [of w c] by (simp add: success_result_def failure_result_def)
  moreover have "outbox (handleCommand_begin command s)
       = outbox s @ [JObj [(lit ''type'', JStr (lit ''PROCESS_COMMAND'')),
                           (lit ''command'', command)]]"
    by (simp add: handleCommand_begin_def)
  moreover have "status_text (run fm s (evs @ [Settled (Inr (JObj [(lit ''success'', JBool True),
                           (lit ''message'', JStr (searching_prefix @ q)),
                           (lit ''searchQuery'', JStr q)]))]))
       = (case encodeURIComponent q of
            Inr enc \<Rightarrow> searching_prefix @ q
          | Inl e \<Rightarrow> lit ''Error: '' @ error_message fm e)"
    using resume_success_status [of fm q "run fm s evs"]
    by (simp add: run_snoc success_result_def)
  moreover have "status_text (run fm s (evs @ [Settled (Inr (JObj [(lit ''success'', JBool False),
                           (lit ''error'', JStr m)]))]))
       = lit ''Error: '' @ m"
    using resume_failure_status [of fm m "run fm s evs"]
    by (simp add: run_snoc failure_result_def)
  moreover have "status_text (run fm s (evs @ [Settled (Inl e)]))
                   = lit ''Error: '' @ error_message fm e"
    by (simp add: run_snoc resume_rejected_status)
  ultimately show ?thesis by blast
qed

section \<open>Claims about the popup\<close>

text \<open>
  Claim C9. The save handler stores a key only when the trimmed input is non-empty and
  starts with \<open>sk-ant-\<close> (and the storage call succeeds), and then stores the trimmed input;
  for every other input it shows an error, does not call storage and leaves the stored key
  unchanged. Hence, over any sequence of popup events, the stored key is the initial one or
  starts with \<open>sk-ant-\<close>, and every value passed to storage starts with \<open>sk-ant-\<close>.
\<close>

theorem popup_stores_only_sk_ant_keys:
  "stored_apiKey (saveBtn_click out s)
     = (if out = None \<and> trim (apiKeyInput_value s) \<noteq> []
           \<and> prefix (lit ''sk-ant-'') (trim (apiKeyInput_value s))
        then JStr (trim (apiKeyInput_value s)) else stored_apiKey s)
   \<and> (trim (apiKeyInput_value s) = [] \<or> \<not> prefix (lit ''sk-ant-'') (trim (apiKeyInput_value s))
        \<longrightarrow> popup_status_class (saveBtn_click out s) = lit ''status error''
            \<and> set_calls (saveBtn_click out s) = set_calls s)
   \<and> (stored_apiKey (popup_run s evs) = stored_apiKey s
        \<or> (\<exists>k. stored_apiKey (popup_run s evs) = JStr k \<and> prefix (lit ''sk-ant-'') k))
   \<and> (set_calls s = [] \<longrightarrow>
        (\<forall>v\<in>set (set_calls (popup_run s evs)). \<exists>k. v = JStr k \<and> prefix (lit ''sk-ant-'') k))"
  using saveBtn_click_stored [of out s] saveBtn_click_rejects [of s out]
    popup_run_stored [of s evs] popup_run_set_calls [of s evs]
  by simp

text \<open>
  Claim C9, at a popup where \<open>hello\<close> is rejected, \<open>sk-ant-abc\<close> (with spaces around it) is
  stored, and the masked input left by the timer is rejected again.
\<close>

theorem popup_stores_only_sk_ant_keys_witness:
  "\<not> prefix (lit ''sk-ant-'')
       (trim (apiKeyInput_value (popup0\<lparr> apiKeyInput_value := lit '' hello '' \<rparr>)))
   \<and> popup_status_class (saveBtn_click None (popup0\<lparr> apiKeyInput_value := lit '' hello '' \<rparr>))
       = lit ''status error''
   \<and> stored_apiKey (saveBtn_click None (popup0\<lparr> apiKeyInput_value := lit '' hello '' \<rparr>))
       = Undefined
   \<and> set_calls (popup0\<lparr> apiKeyInput_value := lit '' hello '' \<rparr>) = []
   \<and> set_calls (popup_run (popup0\<lparr> apiKeyInput_value := lit '' hello '' \<rparr>)
        [SaveClick None, PopupTyped (lit '' sk-ant-abc ''), SaveClick None, MaskTimer,
         SaveClick None])
      = [JStr (lit ''sk-ant-abc'')]
   \<and> prefix (lit ''sk-ant-'') (lit ''sk-ant-abc'')"
proof -
  let ?s = "popup0\<lparr> apiKeyInput_value := lit '' hello '' \<rparr>"
  let ?evs = "[SaveClick None, PopupTyped (lit '' sk-ant-abc ''), SaveClick None, MaskTimer,
               SaveClick None]"
  have t: "trim (lit '' hello '') = lit ''hello''"
      "trim (lit '' sk-ant-abc '') = lit ''sk-ant-abc''"
      "trim (replicate 16 0x2022) = replicate 16 0x2022"
    by (simp_all add: trim_def lit_def isWhiteSpace_def replicate_16)
  have p: "\<not> prefix (lit ''sk-ant-'') (lit ''hello'')"
      "prefix (lit ''sk-ant-'') (lit ''sk-ant-abc'')"
      "\<not> prefix (lit ''sk-ant-'') (replicate 16 0x2022)"
    by (simp_all add: lit_def replicate_16)
  have h: "\<not> prefix (lit ''sk-ant-'') (trim (apiKeyInput_value ?s))"
    by (simp add: t p)
  have e: "set_calls ?s = []" "stored_apiKey ?s = Undefined"
    by (simp_all add: popup0_def)
  have r: "set_calls (popup_run ?s ?evs) = [JStr (lit ''sk-ant-abc'')]"
    by (simp add: popup_run_def saveBtn_click_def showStatus_def mask_timer_fire_def Let_def
        t p popup0_def)
       (simp add: lit_def)
  from popup_stores_only_sk_ant_keys [of None ?s ?evs] h e r show ?thesis by simp
qed

section \<open>Claims about the session context\<close>

text \<open>
  Claim C6, as stated, fails on a bounded context: with capacity 2, after recording the
  three entries 1, 2, 3, \<open>recent(3)\<close> returns the two entries 2, 3 that were kept, not the
  last three recorded, and \<open>recent(4)\<close> returns those two, not all three.
\<close>

theorem recent_after_eviction:
  "recent 3 (record_all (empty_context 2) [1::nat, 2, 3]) = [2, 3]
   \<and> recent 3 (record_all (empty_context 2) [1::nat, 2, 3])
       \<noteq> drop (length [1::nat, 2, 3] - 3) [1, 2, 3]
   \<and> recent 4 (record_all (empty_context 2) [1::nat, 2, 3]) = [2, 3]
   \<and> recent 4 (record_all (empty_context 2) [1::nat, 2, 3]) \<noteq> [1, 2, 3]"
  by (simp add: recent_record_all)

text \<open>
  Claim C6, amended. For every N, every capacity and every sequence of N entries recorded
  into an empty SessionContext, \<open>recent(k)\<close> returns exactly the last min(k, capacity) of the
  recorded entries, all N of them if there are fewer, in chronological order. So
  \<open>recent(k)\<close> with k \<open>\<le>\<close> N is exactly the last k recorded entries when k is at most the
  capacity, also after older entries were evicted, and \<open>recent(k)\<close> with k > N is all N
  entries when N is at most the capacity.
\<close>

theorem recent_of_recorded:
  "recent k (record_all (empty_context cap) es) = drop (length es - min k cap) es
   \<and> length (recent k (record_all (empty_context cap) es)) = min k (min cap (length es))
   \<and> (k \<le> length es \<and> k \<le> cap
        \<longrightarrow> recent k (record_all (empty_context cap) es) = drop (length es - k) es)
   \<and> (length es < k \<and> length es \<le> cap
        \<longrightarrow> recent k (record_all (empty_context cap) es) = es)"
  by (auto simp: recent_record_all min_def)

text \<open>
  Claim C6, amended: k = 2 after four entries in a context of capacity 3 (one entry was
  evicted), and k = 7 after three entries in a context of capacity 5.
\<close>

theorem recent_of_recorded_witness:
  "(2::nat) \<le> length [1::nat, 2, 3, 4] \<and> (2::nat) \<le> 3
   \<and> recent 2 (record_all (empty_context 3) [1::nat, 2, 3, 4]) = [3, 4]
   \<and> length [1::nat, 2, 3] < 7 \<and> length [1::nat, 2, 3] \<le> 5
   \<and> recent 7 (record_all (empty_context 5) [1::nat, 2, 3]) = [1, 2, 3]"
  using recent_of_recorded [of 2 3 "[1::nat, 2, 3, 4]"] recent_of_recorded [of 7 5 "[1::nat, 2, 3]"]
  by simp

end
